theory Spec2Isabelle
  imports Main "HOL-Library.Sublist" "HOL-Library.Log_Nat"
begin

section \<open>Python strings\<close>

text \<open>
  A Python \<open>str\<close> is modelled as a \<open>string\<close>, one \<open>char\<close> per code point, for the code
  points 0 to 255. The character classes below are the ones Python uses on that range:
  \<open>str.isspace\<close> (which is also the class \<open>\s\<close> of \<open>re\<close> on \<open>str\<close> patterns), the class
  \<open>\w\<close> of \<open>re\<close>, the class \<open>\d\<close>, and \<open>str.lower\<close>.
\<close>

definition is_space :: "char \<Rightarrow> bool" where
  "is_space c = (c \<in> set [CHR 0x09, CHR 0x0A, CHR 0x0B, CHR 0x0C, CHR 0x0D,
      CHR 0x1C, CHR 0x1D, CHR 0x1E, CHR 0x1F, CHR 0x20, CHR 0x85, CHR 0xA0])"

definition is_digit :: "char \<Rightarrow> bool" where
  "is_digit c = (c \<in> set ''0123456789'')"

definition is_word :: "char \<Rightarrow> bool" where
  "is_word c = (c \<in> set (''0123456789ABCDEFGHIJKLMNOPQRSTUVWXYZ_abcdefghijklmnopqrstuvwxyz'' @
     [CHR 0xAA, CHR 0xB2, CHR 0xB3, CHR 0xB5, CHR 0xB9, CHR 0xBA, CHR 0xBC, CHR 0xBD, CHR 0xBE, CHR 0xC0,
      CHR 0xC1, CHR 0xC2, CHR 0xC3, CHR 0xC4, CHR 0xC5, CHR 0xC6, CHR 0xC7, CHR 0xC8, CHR 0xC9, CHR 0xCA,
      CHR 0xCB, CHR 0xCC, CHR 0xCD, CHR 0xCE, CHR 0xCF, CHR 0xD0, CHR 0xD1, CHR 0xD2, CHR 0xD3, CHR 0xD4,
      CHR 0xD5, CHR 0xD6, CHR 0xD8, CHR 0xD9, CHR 0xDA, CHR 0xDB, CHR 0xDC, CHR 0xDD, CHR 0xDE, CHR 0xDF,
      CHR 0xE0, CHR 0xE1, CHR 0xE2, CHR 0xE3, CHR 0xE4, CHR 0xE5, CHR 0xE6, CHR 0xE7, CHR 0xE8, CHR 0xE9,
      CHR 0xEA, CHR 0xEB, CHR 0xEC, CHR 0xED, CHR 0xEE, CHR 0xEF, CHR 0xF0, CHR 0xF1, CHR 0xF2, CHR 0xF3,
      CHR 0xF4, CHR 0xF5, CHR 0xF6, CHR 0xF8, CHR 0xF9, CHR 0xFA, CHR 0xFB, CHR 0xFC, CHR 0xFD, CHR 0xFE,
      CHR 0xFF]))"

definition upper_chars :: "char list" where
  "upper_chars = ''ABCDEFGHIJKLMNOPQRSTUVWXYZ'' @
     [CHR 0xC0, CHR 0xC1, CHR 0xC2, CHR 0xC3, CHR 0xC4, CHR 0xC5, CHR 0xC6, CHR 0xC7, CHR 0xC8, CHR 0xC9,
      CHR 0xCA, CHR 0xCB, CHR 0xCC, CHR 0xCD, CHR 0xCE, CHR 0xCF, CHR 0xD0, CHR 0xD1, CHR 0xD2, CHR 0xD3,
      CHR 0xD4, CHR 0xD5, CHR 0xD6, CHR 0xD8, CHR 0xD9, CHR 0xDA, CHR 0xDB, CHR 0xDC, CHR 0xDD, CHR 0xDE]"

definition lower_chars :: "char list" where
  "lower_chars = ''abcdefghijklmnopqrstuvwxyz'' @
     [CHR 0xE0, CHR 0xE1, CHR 0xE2, CHR 0xE3, CHR 0xE4, CHR 0xE5, CHR 0xE6, CHR 0xE7, CHR 0xE8, CHR 0xE9,
      CHR 0xEA, CHR 0xEB, CHR 0xEC, CHR 0xED, CHR 0xEE, CHR 0xEF, CHR 0xF0, CHR 0xF1, CHR 0xF2, CHR 0xF3,
      CHR 0xF4, CHR 0xF5, CHR 0xF6, CHR 0xF8, CHR 0xF9, CHR 0xFA, CHR 0xFB, CHR 0xFC, CHR 0xFD, CHR 0xFE]"

definition lower_char :: "char \<Rightarrow> char" where
  "lower_char c = (case map_of (zip upper_chars lower_chars) c of Some l \<Rightarrow> l | None \<Rightarrow> c)"

text \<open>\<open>s.lower()\<close>\<close>

definition lower :: "string \<Rightarrow> string" where
  "lower s = map lower_char s"

text \<open>\<open>s.strip()\<close>\<close>

definition strip :: "string \<Rightarrow> string" where
  "strip s = rev (dropWhile is_space (rev (dropWhile is_space s)))"

text \<open>\<open>sub in s\<close>: \<open>sub\<close> occurs in \<open>s\<close> as a contiguous substring.\<close>

fun in_str :: "string \<Rightarrow> string \<Rightarrow> bool" where
  "in_str sub [] = (sub = [])"
| "in_str sub (c # cs) = (prefix sub (c # cs) \<or> in_str sub cs)"

text \<open>\<open>s.split()\<close>: the maximal runs of non-whitespace characters, in order.\<close>

fun split_ws_aux :: "string \<Rightarrow> string \<Rightarrow> string list" where
  "split_ws_aux cur [] = (if cur = [] then [] else [cur])"
| "split_ws_aux cur (c # cs) =
     (if is_space c then (if cur = [] then split_ws_aux [] cs else cur # split_ws_aux [] cs)
      else split_ws_aux (cur @ [c]) cs)"

definition split_ws :: "string \<Rightarrow> string list" where
  "split_ws s = split_ws_aux [] s"

text \<open>\<open>s.split(sep)\<close> for a one-character separator: always at least one piece.\<close>

fun split_on_aux :: "char \<Rightarrow> string \<Rightarrow> string \<Rightarrow> string list" where
  "split_on_aux sep cur [] = [cur]"
| "split_on_aux sep cur (c # cs) =
     (if c = sep then cur # split_on_aux sep [] cs else split_on_aux sep (cur @ [c]) cs)"

definition split_on :: "char \<Rightarrow> string \<Rightarrow> string list" where
  "split_on sep s = split_on_aux sep [] s"

text \<open>\<open>sep.join(pieces)\<close>\<close>

fun join :: "string \<Rightarrow> string list \<Rightarrow> string" where
  "join sep [] = []"
| "join sep [p] = p"
| "join sep (p # q # ps) = p @ sep @ join sep (q # ps)"

text \<open>\<open>s.replace(old, new)\<close> for a non-empty \<open>old\<close>: the occurrences are found from the
  left and do not overlap.\<close>

fun replace :: "string \<Rightarrow> string \<Rightarrow> string \<Rightarrow> string" where
  "replace old new [] = []"
| "replace old new (c # cs) =
     (if old \<noteq> [] \<and> prefix old (c # cs)
      then new @ replace old new (drop (length old) (c # cs))
      else c # replace old new cs)"

section \<open>Python floats\<close>

text \<open>
  A finite Python \<open>float\<close> (IEEE binary64) is modelled by the rational number it denotes.
  \<open>fl\<close> rounds a rational to the nearest number with a 53-bit significand, ties to the even
  significand; the exponent range is not modelled (the values computed here lie between
  \<open>1 / n\<close>, for a list length \<open>n\<close>, and 100). The arithmetic operations round their exact
  result with \<open>fl\<close>, as the hardware does.
\<close>

definition round_half_even :: "rat \<Rightarrow> int" where
  "round_half_even x = (let f = \<lfloor>x\<rfloor>; d = x - of_int f in
     if d < 1 / 2 then f else if 1 / 2 < d then f + 1 else if even f then f else f + 1)"

text \<open>The exponent \<open>e\<close> with \<open>2 ^ e \<le> \<bar>x\<bar> < 2 ^ (e + 1)\<close>, for \<open>x \<noteq> 0\<close>.\<close>

definition binade :: "rat \<Rightarrow> int" where
  "binade x = (let (p, q) = quotient_of \<bar>x\<bar>; d = bitlen p - bitlen q in
     if power_int 2 d \<le> \<bar>x\<bar> then d else d - 1)"

definition fl :: "rat \<Rightarrow> rat" where
  "fl x = (if x = 0 then 0 else
     let u = power_int 2 (binade x - 52) in of_int (round_half_even (x / u)) * u)"

datatype py_error = ZeroDivisionError

text \<open>\<open>a / b\<close> on two \<open>int\<close>s: the correctly rounded quotient.\<close>

definition int_truediv :: "int \<Rightarrow> int \<Rightarrow> py_error + rat" where
  "int_truediv a b = (if b = 0 then Inl ZeroDivisionError else Inr (fl (of_int a / of_int b)))"

text \<open>\<open>x * y\<close> on two floats.\<close>

definition float_mul :: "rat \<Rightarrow> rat \<Rightarrow> rat" where
  "float_mul x y = fl (x * y)"

text \<open>
  \<open>round(x, 2)\<close> on a float: the decimal with two fractional digits nearest to the exact
  value of \<open>x\<close>, ties to the even digit, converted back to the nearest float.
\<close>

definition py_round2 :: "rat \<Rightarrow> rat" where
  "py_round2 x = fl (of_int (round_half_even (x * 100)) / 100)"

section \<open>Skill matching (rag\_system.py)\<close>

record skill_match =
  matched_skills :: "string list"
  missing_skills :: "string list"
  match_percentage :: rat

text \<open>The inner loop of \<open>get_skill_matches\<close>: the scan of the r\'esum\'e skills stops at the
  first one that contains the job skill or is contained in it.\<close>

fun resume_hit :: "string \<Rightarrow> string list \<Rightarrow> bool" where
  "resume_hit job_skill [] = False"
| "resume_hit job_skill (resume_skill # rest) =
     (if in_str job_skill resume_skill \<or> in_str resume_skill job_skill then True
      else resume_hit job_skill rest)"

text \<open>The outer loop, with the list \<open>matched_skills\<close> it appends to.\<close>

fun match_loop :: "string list \<Rightarrow> string list \<Rightarrow> string list \<Rightarrow> string list" where
  "match_loop [] resume_skills_normalized matched = matched"
| "match_loop (job_skill # rest) resume_skills_normalized matched =
     match_loop rest resume_skills_normalized
       (if resume_hit job_skill resume_skills_normalized then matched @ [job_skill] else matched)"

definition normalize_skill :: "string \<Rightarrow> string" where
  "normalize_skill skill = strip (lower skill)"

definition get_skill_matches :: "string list \<Rightarrow> string list \<Rightarrow> py_error + skill_match" where
  "get_skill_matches job_skills resume_skills =
     (if job_skills = [] then
        Inr \<lparr>matched_skills = [], missing_skills = [], match_percentage = 0\<rparr>
      else
        let job_skills_normalized = map normalize_skill job_skills;
            resume_skills_normalized = map normalize_skill resume_skills;
            matched = match_loop job_skills_normalized resume_skills_normalized [];
            missing = filter (\<lambda>skill. skill \<notin> set matched) job_skills_normalized
        in case int_truediv (int (length matched)) (int (length job_skills_normalized)) of
             Inl e \<Rightarrow> Inl e
           | Inr ratio \<Rightarrow>
               Inr \<lparr>matched_skills = matched, missing_skills = missing,
                    match_percentage = py_round2 (float_mul ratio 100)\<rparr>)"

section \<open>Text utilities (utils.py)\<close>

text \<open>\<open>re.sub(r'\s+', ' ', text)\<close>: every maximal run of whitespace becomes one space.\<close>

fun collapse_ws_aux :: "bool \<Rightarrow> string \<Rightarrow> string" where
  "collapse_ws_aux in_run [] = []"
| "collapse_ws_aux in_run (c # cs) =
     (if is_space c then (if in_run then collapse_ws_aux True cs
                          else CHR '' '' # collapse_ws_aux True cs)
      else c # collapse_ws_aux False cs)"

definition collapse_ws :: "string \<Rightarrow> string" where
  "collapse_ws s = collapse_ws_aux False s"

text \<open>The characters kept by \<open>re.sub(r'[^\w\s\.\,\!\?\:\;\-\(\)]', '', text)\<close>.\<close>

definition allowed_char :: "char \<Rightarrow> bool" where
  "allowed_char c = (is_word c \<or> is_space c \<or> c \<in> set ''.,!?:;-()'')"

text \<open>\<open>clean_text\<close>; \<open>None\<close> is Python's \<open>None\<close>, which \<open>if not text\<close> treats as the empty
  string.\<close>

definition clean_text :: "string option \<Rightarrow> string" where
  "clean_text text =
     (case text of
        None \<Rightarrow> []
      | Some t \<Rightarrow> if t = [] then [] else strip (filter allowed_char (collapse_ws t)))"

definition skill_keywords :: "string list" where
  "skill_keywords =
     [''python'', ''java'', ''javascript'', ''react'', ''angular'', ''vue'', ''node.js'',
      ''sql'', ''mongodb'', ''postgresql'', ''mysql'', ''aws'', ''azure'', ''gcp'',
      ''docker'', ''kubernetes'', ''git'', ''machine learning'', ''ai'', ''deep learning'',
      ''tensorflow'', ''pytorch'', ''scikit-learn'', ''pandas'', ''numpy'', ''matplotlib'',
      ''html'', ''css'', ''bootstrap'', ''jquery'', ''django'', ''flask'', ''fastapi'',
      ''spring'', ''hibernate'', ''maven'', ''gradle'', ''jenkins'', ''ci/cd'',
      ''agile'', ''scrum'', ''jira'', ''confluence'', ''rest api'', ''graphql'',
      ''microservices'', ''serverless'', ''lambda'', ''s3'', ''ec2'', ''rds'']"

text \<open>The list \<open>found_skills\<close> built by the loop of \<open>extract_skills_from_text\<close>.\<close>

definition found_skills :: "string \<Rightarrow> string list" where
  "found_skills text = filter (\<lambda>skill. in_str skill (lower text)) skill_keywords"

text \<open>\<open>extract_skills_from_text\<close> returns \<open>list(set(found_skills))\<close>, a list in no
  specified order; it is modelled by the set of its elements.\<close>

definition extract_skills_from_text :: "string \<Rightarrow> string set" where
  "extract_skills_from_text text = set (found_skills text)"

text \<open>
  \<open>os.path.splitext(filename)[1]\<close> (posixpath): the extension starts at the last dot of
  the last path component, unless that component has nothing but dots before it.
\<close>

text \<open>\<open>s.rfind(c)\<close> for a one-character \<open>c\<close>: the last index of \<open>c\<close> in \<open>s\<close>, or \<open>-1\<close>.\<close>

fun rfind_from :: "char \<Rightarrow> string \<Rightarrow> int \<Rightarrow> int \<Rightarrow> int" where
  "rfind_from c [] i found = found"
| "rfind_from c (x # xs) i found = rfind_from c xs (i + 1) (if x = c then i else found)"

definition rfind :: "char \<Rightarrow> string \<Rightarrow> int" where
  "rfind c s = rfind_from c s 0 (- 1)"

text \<open>The \<open>while\<close> loop of \<open>genericpath._splitext\<close>: is there a character other than the
  dot in \<open>p[filenameIndex:dotIndex]\<close>?\<close>

definition splitext_ext :: "string \<Rightarrow> string" where
  "splitext_ext p =
     (let sepIndex = rfind CHR ''/'' p; dotIndex = rfind CHR ''.'' p in
      if dotIndex > sepIndex \<and>
         list_ex (\<lambda>c. c \<noteq> CHR ''.'') (take (nat (dotIndex - (sepIndex + 1))) (drop (nat (sepIndex + 1)) p))
      then drop (nat dotIndex) p else [])"

definition get_file_extension :: "string \<Rightarrow> string" where
  "get_file_extension filename = lower (splitext_ext filename)"

definition SUPPORTED_FILE_TYPES :: "string list" where
  "SUPPORTED_FILE_TYPES = [''.pdf'', ''.docx'', ''.doc'']"

definition MAX_FILE_SIZE :: int where
  "MAX_FILE_SIZE = 10 * 1024 * 1024"

text \<open>The uploaded file object: its name, its size in bytes and its bytes.\<close>

record uploaded_file =
  name :: string
  size :: int
  content :: string

datatype upload_error = NoFile | UnsupportedType | TooLarge

text \<open>The result dictionary \<open>{"valid": ..., "error": ...}\<close> of \<open>validate_file_upload\<close>; the
  error messages are represented by the check that produced them.\<close>

record validation =
  valid :: bool
  error :: "upload_error option"

definition validate_file_upload :: "uploaded_file option \<Rightarrow> validation" where
  "validate_file_upload uploaded =
     (case uploaded of
        None \<Rightarrow> \<lparr>valid = False, error = Some NoFile\<rparr>
      | Some f \<Rightarrow>
          let file_extension = get_file_extension (name f) in
          if file_extension \<notin> set SUPPORTED_FILE_TYPES then
            \<lparr>valid = False, error = Some UnsupportedType\<rparr>
          else if size f > MAX_FILE_SIZE then
            \<lparr>valid = False, error = Some TooLarge\<rparr>
          else \<lparr>valid = True, error = None\<rparr>)"

section \<open>R\'esum\'e parsing (resume\_parser.py)\<close>

subsection \<open>The regular expressions of the parser\<close>

text \<open>\<open>\b\<close> at index \<open>i\<close> of \<open>s\<close>: exactly one of the characters before and after the
  index is a word character (outside the string counts as a non-word character).\<close>

definition word_boundary :: "string \<Rightarrow> nat \<Rightarrow> bool" where
  "word_boundary s i =
     ((0 < i \<and> i - 1 < length s \<and> is_word (s ! (i - 1))) \<noteq> (i < length s \<and> is_word (s ! i)))"

text \<open>The literal \<open>w\<close> stands at index \<open>i\<close> of \<open>s\<close> between two word boundaries.\<close>

definition literal_at :: "string \<Rightarrow> string \<Rightarrow> nat \<Rightarrow> bool" where
  "literal_at w s i =
     (i + length w \<le> length s \<and> take (length w) (drop i s) = w
      \<and> word_boundary s i \<and> word_boundary s (i + length w))"

text \<open>The same with \<open>re.IGNORECASE\<close>, for a lowercase literal \<open>w\<close>.\<close>

definition literal_ci_at :: "string \<Rightarrow> string \<Rightarrow> nat \<Rightarrow> bool" where
  "literal_ci_at w s i =
     (i + length w \<le> length s \<and> lower (take (length w) (drop i s)) = w
      \<and> word_boundary s i \<and> word_boundary s (i + length w))"

text \<open>\<open>re.search(r'\b(University|College|School|Institute|Academy)\b', line, re.IGNORECASE)\<close>\<close>

definition search_institution :: "string \<Rightarrow> bool" where
  "search_institution line =
     list_ex (\<lambda>i. list_ex (\<lambda>w. literal_ci_at w line i)
                [''university'', ''college'', ''school'', ''institute'', ''academy''])
       [0..<Suc (length line)]"

text \<open>\<open>\b(20\d{2}|19\d{2})\b\<close> at index \<open>i\<close>.\<close>

definition year_at :: "string \<Rightarrow> nat \<Rightarrow> bool" where
  "year_at s i =
     (i + 4 \<le> length s
      \<and> (take 2 (drop i s) = ''20'' \<or> take 2 (drop i s) = ''19'')
      \<and> is_digit (s ! (i + 2)) \<and> is_digit (s ! (i + 3))
      \<and> word_boundary s i \<and> word_boundary s (i + 4))"

text \<open>\<open>re.search(r'\b(20\d{2}|19\d{2})\b', line)\<close>\<close>

definition search_year :: "string \<Rightarrow> bool" where
  "search_year line = list_ex (year_at line) [0..<Suc (length line)]"

text \<open>\<open>\b(20\d{2}|19\d{2}|Present|Current)\b\<close> at index \<open>j\<close>.\<close>

definition period_end_at :: "string \<Rightarrow> nat \<Rightarrow> bool" where
  "period_end_at s j = (year_at s j \<or> literal_at ''Present'' s j \<or> literal_at ''Current'' s j)"

text \<open>
  \<open>re.search(r'\b(20\d{2}|19\d{2})\b.*\b(20\d{2}|19\d{2}|Present|Current)\b', line)\<close>: a
  year at some index \<open>i\<close>, then any characters but a newline up to an index \<open>j\<close>, then the
  second group at \<open>j\<close>.
\<close>

definition search_period :: "string \<Rightarrow> bool" where
  "search_period line =
     list_ex (\<lambda>i. year_at line i \<and>
        list_ex (\<lambda>j. CHR 0x0A \<notin> set (take (j - (i + 4)) (drop (i + 4) line)) \<and> period_end_at line j)
          [i + 4..<Suc (length line)])
       [0..<Suc (length line)]"

subsection \<open>Sections\<close>

datatype section_tag = General | Education | Experience | Skills | Projects | Contact

text \<open>The dictionary \<open>section_keywords\<close>, in its insertion order.\<close>

definition section_keywords :: "(section_tag \<times> string list) list" where
  "section_keywords =
     [(Education, [''education'', ''academic'', ''degree'', ''university'', ''college'', ''school'']),
      (Experience, [''experience'', ''work history'', ''employment'', ''career'', ''job'']),
      (Skills, [''skills'', ''technical skills'', ''competencies'', ''technologies'']),
      (Projects, [''projects'', ''portfolio'', ''achievements'', ''accomplishments'']),
      (Contact, [''contact'', ''email'', ''phone'', ''address'', ''linkedin''])]"

text \<open>The inner \<open>for\<close> loop of \<open>_extract_sections\<close>: the first section one of whose keywords
  occurs in the lowercased line.\<close>

fun find_section :: "(section_tag \<times> string list) list \<Rightarrow> string \<Rightarrow> section_tag option" where
  "find_section [] line = None"
| "find_section ((section_name, keywords) # rest) line =
     (if list_ex (\<lambda>keyword. in_str (lower keyword) (lower line)) keywords then Some section_name
      else find_section rest line)"

text \<open>The outer loop, with its three variables: the dictionary \<open>sections\<close>, the current
  section and the lines collected for it.\<close>

fun sections_loop ::
  "string list \<Rightarrow> (section_tag \<rightharpoonup> string) \<Rightarrow> section_tag \<Rightarrow> string list
     \<Rightarrow> (section_tag \<rightharpoonup> string) \<times> section_tag \<times> string list" where
  "sections_loop [] sections current_section current_content =
     (sections, current_section, current_content)"
| "sections_loop (raw # rest) sections current_section current_content =
     (let line = strip raw in
      if line = [] then sections_loop rest sections current_section current_content
      else case find_section section_keywords line of
             Some section_name \<Rightarrow>
               sections_loop rest
                 (if current_section \<noteq> General
                  then sections(current_section \<mapsto> join [CHR 0x0A] current_content)
                  else sections)
                 section_name []
           | None \<Rightarrow> sections_loop rest sections current_section (current_content @ [line]))"

definition extract_sections :: "string \<Rightarrow> (section_tag \<rightharpoonup> string)" where
  "extract_sections text =
     (case sections_loop (split_on (CHR 0x0A) text) Map.empty General [] of
        (sections, current_section, current_content) \<Rightarrow>
          if current_content \<noteq> []
          then sections(current_section \<mapsto> join [CHR 0x0A] current_content)
          else sections)"

text \<open>\<open>sections.get(key, '')\<close>\<close>

definition get_section :: "(section_tag \<rightharpoonup> string) \<Rightarrow> section_tag \<Rightarrow> string" where
  "get_section sections key = (case sections key of Some t \<Rightarrow> t | None \<Rightarrow> [])"

subsection \<open>Education\<close>

text \<open>An education dictionary; a key that is absent is \<open>None\<close>.\<close>

record education_entry =
  institution :: "string option"
  degree :: "string option"
  year :: "string option"
  gpa :: "string option"

definition empty_education :: education_entry where
  "empty_education = \<lparr>institution = None, degree = None, year = None, gpa = None\<rparr>"

fun education_loop ::
  "string list \<Rightarrow> education_entry list \<Rightarrow> education_entry
     \<Rightarrow> education_entry list \<times> education_entry" where
  "education_loop [] education_list current_education = (education_list, current_education)"
| "education_loop (raw # rest) education_list current_education =
     (let line = strip raw in
      if line = [] then education_loop rest education_list current_education
      else if search_institution line then
        education_loop rest
          (if current_education \<noteq> empty_education then education_list @ [current_education]
           else education_list)
          (empty_education\<lparr>institution := Some line\<rparr>)
      else if in_str ''degree'' (lower line) \<or> in_str ''bachelor'' (lower line)
              \<or> in_str ''master'' (lower line) then
        education_loop rest education_list (current_education\<lparr>degree := Some line\<rparr>)
      else if search_year line then
        education_loop rest education_list (current_education\<lparr>year := Some line\<rparr>)
      else if in_str ''gpa'' (lower line) then
        education_loop rest education_list (current_education\<lparr>gpa := Some line\<rparr>)
      else education_loop rest education_list current_education)"

definition extract_education :: "string \<Rightarrow> education_entry list" where
  "extract_education education_text =
     (if education_text = [] then []
      else case education_loop (split_on (CHR 0x0A) education_text) [] empty_education of
             (education_list, current_education) \<Rightarrow>
               if current_education \<noteq> empty_education then education_list @ [current_education]
               else education_list)"

subsection \<open>Experience\<close>

text \<open>An experience dictionary. The parser writes the first four keys;
  \<open>relevance_score\<close> is the key that \<open>get_relevant_experience\<close> writes.\<close>

record experience_entry =
  period :: "string option"
  title :: "string option"
  company :: "string option"
  description :: "string option"
  relevance_score :: "int option"

definition empty_experience :: experience_entry where
  "empty_experience =
     \<lparr>period = None, title = None, company = None, description = None, relevance_score = None\<rparr>"

definition title_keywords :: "string list" where
  "title_keywords = [''engineer'', ''developer'', ''manager'', ''analyst'', ''specialist'']"

fun experience_loop ::
  "string list \<Rightarrow> experience_entry list \<Rightarrow> experience_entry
     \<Rightarrow> experience_entry list \<times> experience_entry" where
  "experience_loop [] experience_list current_experience = (experience_list, current_experience)"
| "experience_loop (raw # rest) experience_list current_experience =
     (let line = strip raw in
      if line = [] then experience_loop rest experience_list current_experience
      else if search_period line then
        experience_loop rest
          (if current_experience \<noteq> empty_experience then experience_list @ [current_experience]
           else experience_list)
          (empty_experience\<lparr>period := Some line\<rparr>)
      else if list_ex (\<lambda>keyword. in_str keyword (lower line)) title_keywords then
        experience_loop rest experience_list
          (if title current_experience = None then current_experience\<lparr>title := Some line\<rparr>
           else current_experience)
      else if in_str ''@'' line \<or> in_str ''www.'' line then
        experience_loop rest experience_list
          (if company current_experience = None then current_experience\<lparr>company := Some line\<rparr>
           else current_experience)
      else if length line > 20 \<and> \<not> search_year line then
        experience_loop rest experience_list
          (case description current_experience of
             None \<Rightarrow> current_experience\<lparr>description := Some line\<rparr>
           | Some d \<Rightarrow> current_experience\<lparr>description := Some (d @ '' '' @ line)\<rparr>)
      else experience_loop rest experience_list current_experience)"

definition extract_experience :: "string \<Rightarrow> experience_entry list" where
  "extract_experience experience_text =
     (if experience_text = [] then []
      else case experience_loop (split_on (CHR 0x0A) experience_text) [] empty_experience of
             (experience_list, current_experience) \<Rightarrow>
               if current_experience \<noteq> empty_experience then experience_list @ [current_experience]
               else experience_list)"

subsection \<open>The parse\<close>

text \<open>
  The dictionary returned by \<open>_parse_resume_text\<close>, restricted to the keys the properties
  below read: \<open>education\<close>, \<open>experience\<close>, \<open>skills\<close> and \<open>raw_text\<close>, with the two keys
  \<open>filename\<close> and \<open>file_size\<close> that \<open>parse_resume\<close> adds. The keys \<open>name\<close>, \<open>email\<close>,
  \<open>phone\<close>, \<open>linkedin\<close>, \<open>summary\<close> and \<open>projects\<close> are not modelled.
\<close>

record resume_data =
  education :: "education_entry list"
  experience :: "experience_entry list"
  skills :: "string set"
  raw_text :: string
  filename :: "string option"
  file_size :: "int option"

definition parse_resume_text :: "string \<Rightarrow> resume_data" where
  "parse_resume_text text0 =
     (let text = clean_text (Some text0);
          sections = extract_sections text
      in \<lparr>education = extract_education (get_section sections Education),
          experience = extract_experience (get_section sections Experience),
          skills = extract_skills_from_text text,
          raw_text = text,
          filename = None,
          file_size = None\<rparr>)"

text \<open>What \<open>parse_resume\<close> raises: every exception inside it is caught and raised again as
  one \<open>Exception\<close> whose message holds the cause.\<close>

datatype resume_cause =
    NoFileObject
  | UnsupportedFormat string
  | PdfTextFailed
  | DocxTextFailed

datatype resume_error = ParseResumeFailed resume_cause

text \<open>
  The text extraction of PyPDF2 and python-docx is a parameter: a function from the
  uploaded file to its text, or \<open>None\<close> when the library raises.
\<close>

definition parse_resume ::
  "(uploaded_file \<Rightarrow> string option) \<Rightarrow> (uploaded_file \<Rightarrow> string option)
     \<Rightarrow> uploaded_file option \<Rightarrow> resume_error + resume_data" where
  "parse_resume extract_text_from_pdf extract_text_from_docx uploaded =
     (case uploaded of
        None \<Rightarrow> Inl (ParseResumeFailed NoFileObject)
      | Some f \<Rightarrow>
          let file_extension = get_file_extension (name f) in
          if file_extension = ''.pdf'' then
            (case extract_text_from_pdf f of
               None \<Rightarrow> Inl (ParseResumeFailed PdfTextFailed)
             | Some text \<Rightarrow>
                 Inr ((parse_resume_text text)\<lparr>filename := Some (name f), file_size := Some (size f)\<rparr>))
          else if file_extension \<in> set [''.docx'', ''.doc''] then
            (case extract_text_from_docx f of
               None \<Rightarrow> Inl (ParseResumeFailed DocxTextFailed)
             | Some text \<Rightarrow>
                 Inr ((parse_resume_text text)\<lparr>filename := Some (name f), file_size := Some (size f)\<rparr>))
          else Inl (ParseResumeFailed (UnsupportedFormat file_extension)))"

section \<open>Relevant experience (rag\_system.py)\<close>

text \<open>
  The experience dictionaries are mutable objects that \<open>get_relevant_experience\<close> writes
  to, so they live in a store: an address stands for a dictionary object, the store maps
  each address to the dictionary's present value, and the argument list
  \<open>resume_experience\<close> is a list of addresses (the same object may occur twice).
\<close>

type_synonym addr = nat

type_synonym store = "addr \<Rightarrow> experience_entry"

text \<open>\<open>any(keyword in text_lower for keyword in requirements_lower.split())\<close>\<close>

definition any_keyword_in :: "string \<Rightarrow> string \<Rightarrow> bool" where
  "any_keyword_in requirements_lower text_lower =
     list_ex (\<lambda>keyword. in_str keyword text_lower) (split_ws requirements_lower)"

text \<open>The body of the loop up to the test \<open>relevance_score > 0\<close>: \<open>exp.get(key)\<close> is
  true for a key that is present with a non-empty string.\<close>

definition score_of :: "string \<Rightarrow> experience_entry \<Rightarrow> int" where
  "score_of requirements_lower entry =
     (let relevance0 = 0;
          relevance1 =
            (case title entry of
               Some t \<Rightarrow> if t \<noteq> [] \<and> any_keyword_in requirements_lower (lower t)
                         then relevance0 + 2 else relevance0
             | None \<Rightarrow> relevance0);
          relevance2 =
            (case description entry of
               Some d \<Rightarrow> if d \<noteq> [] \<and> any_keyword_in requirements_lower (lower d)
                         then relevance1 + 1 else relevance1
             | None \<Rightarrow> relevance1)
      in relevance2)"

text \<open>The loop of \<open>get_relevant_experience\<close>: it writes \<open>exp['relevance_score']\<close> into the
  dictionary object and appends the object to \<open>relevant_experience\<close>.\<close>

fun relevant_loop :: "string \<Rightarrow> addr list \<Rightarrow> store \<Rightarrow> addr list \<Rightarrow> store \<times> addr list" where
  "relevant_loop requirements_lower [] st relevant_experience = (st, relevant_experience)"
| "relevant_loop requirements_lower (entry # rest) st relevant_experience =
     (let relevance = score_of requirements_lower (st entry) in
      if relevance > 0 then
        relevant_loop requirements_lower rest
          (st(entry := (st entry)\<lparr>relevance_score := Some relevance\<rparr>))
          (relevant_experience @ [entry])
      else relevant_loop requirements_lower rest st relevant_experience)"

text \<open>The sort key \<open>x.get('relevance_score', 0)\<close>.\<close>

definition sort_key_of :: "store \<Rightarrow> addr \<Rightarrow> int" where
  "sort_key_of st a = (case relevance_score (st a) of Some s \<Rightarrow> s | None \<Rightarrow> 0)"

text \<open>
  \<open>list.sort(key=..., reverse=True)\<close> is a stable sort in descending order of the key:
  elements with equal keys keep their order. It is the stable ascending sort by the
  negated key.
\<close>

definition sort_descending :: "('a \<Rightarrow> int) \<Rightarrow> 'a list \<Rightarrow> 'a list" where
  "sort_descending k xs = sort_key (\<lambda>x. - k x) xs"

text \<open>\<open>get_relevant_experience\<close> returns the final store and the list it returns in
  Python, a new list of at most three of the objects.\<close>

definition get_relevant_experience :: "string \<Rightarrow> addr list \<Rightarrow> store \<Rightarrow> store \<times> addr list" where
  "get_relevant_experience job_requirements resume_experience st =
     (if resume_experience = [] then (st, [])
      else case relevant_loop (lower job_requirements) resume_experience st [] of
             (st', relevant_experience) \<Rightarrow>
               (st', take 3 (sort_descending (sort_key_of st') relevant_experience)))"

text \<open>A store for the examples, with five kinds of dictionary objects.\<close>

definition example_store :: store where
  "example_store a =
     (if a = 0 then empty_experience\<lparr>title := Some ''Chef'', description := Some ''Cooked''\<rparr>
      else if a = 1 then
        empty_experience\<lparr>title := Some ''Data Analyst'', description := Some ''Wrote Python reports''\<rparr>
      else if a = 2 then empty_experience\<lparr>title := Some ''Python Engineer''\<rparr>
      else if a = 3 then
        empty_experience\<lparr>title := Some ''Senior Engineer'', description := Some ''Python services''\<rparr>
      else empty_experience\<lparr>title := Some ''Engineer''\<rparr>)"

section \<open>Job pages (job\_extractor.py, utils.py)\<close>

text \<open>
  The parsed page is reduced to what the extractors ask of it: for a CSS selector, the
  text (\<open>get_text()\<close>) of the first element that \<open>select_one\<close> finds, or \<open>None\<close> when no
  element matches. \<open>soup.find('title')\<close> finds the element that \<open>select_one('title')\<close>
  finds, the first \<open>title\<close> element of the document.
\<close>

type_synonym soup = "string \<Rightarrow> string option"

definition title_selectors :: "string list" where
  "title_selectors =
     [''h1[class*='' @ [CHR 0x22] @ ''title'' @ [CHR 0x22] @ '']'',
      ''h1[class*='' @ [CHR 0x22] @ ''job'' @ [CHR 0x22] @ '']'',
      ''h1[class*='' @ [CHR 0x22] @ ''position'' @ [CHR 0x22] @ '']'',
      ''.job-title'',
      ''.position-title'',
      ''h1'',
      ''title'']"

text \<open>The selector loop of \<open>_extract_job_title\<close>: the first selector whose element has a
  cleaned text of more than three characters.\<close>

fun first_title :: "soup \<Rightarrow> string list \<Rightarrow> string option" where
  "first_title page [] = None"
| "first_title page (selector # rest) =
     (case page selector of
        None \<Rightarrow> first_title page rest
      | Some element_text \<Rightarrow>
          let title_text = clean_text (Some element_text) in
          if title_text \<noteq> [] \<and> length title_text > 3 then Some title_text
          else first_title page rest)"

text \<open>
  The pattern \<open>\s*[-|]\s*(Indeed|LinkedIn|Glassdoor|.*\.com).*\<close> matched at the start of
  \<open>s\<close>: the number of characters of the match, if there is one. The match runs to the end
  of the line in which the group starts, since \<open>.\<close> matches every character but the newline.
\<close>

definition suffix_match_len :: "string \<Rightarrow> nat option" where
  "suffix_match_len s =
     (case dropWhile is_space s of
        [] \<Rightarrow> None
      | c # r \<Rightarrow>
          if c = CHR ''-'' \<or> c = CHR ''|'' then
            let t = dropWhile is_space r in
            if prefix ''Indeed'' t \<or> prefix ''LinkedIn'' t \<or> prefix ''Glassdoor'' t
               \<or> in_str ''.com'' (takeWhile (\<lambda>x. x \<noteq> CHR 0x0A) t)
            then Some (length s - length (dropWhile (\<lambda>x. x \<noteq> CHR 0x0A) t))
            else None
          else None)"

text \<open>\<open>re.sub(pattern, '', title)\<close>: the matches are found from the left and removed;
  \<open>skip\<close> counts the characters of the current match still to remove.\<close>

fun remove_suffixes :: "nat \<Rightarrow> string \<Rightarrow> string" where
  "remove_suffixes skip [] = []"
| "remove_suffixes skip (c # cs) =
     (if skip > 0 then remove_suffixes (skip - 1) cs
      else case suffix_match_len (c # cs) of
             Some n \<Rightarrow> remove_suffixes (n - 1) cs
           | None \<Rightarrow> c # remove_suffixes 0 cs)"

text \<open>The result of \<open>_extract_job_title\<close>; \<open>TitleNotFound\<close> is the sentinel string, whose
  characters lie outside the modelled range.\<close>

datatype job_title = Title string | TitleNotFound

definition extract_job_title :: "soup \<Rightarrow> job_title" where
  "extract_job_title page =
     (case first_title page title_selectors of
        Some title_text \<Rightarrow> Title title_text
      | None \<Rightarrow>
          (case page ''title'' of
             Some tag_text \<Rightarrow> Title (remove_suffixes 0 (clean_text (Some tag_text)))
           | None \<Rightarrow> TitleNotFound))"

subsection \<open>Company name\<close>

text \<open>
  \<open>str.title()\<close>: a character that follows a cased character is lowercased, every other
  character is put in title case. The title case of \<open>0xDF\<close> is the two characters \<open>Ss\<close>;
  the title cases of \<open>0xB5\<close> and \<open>0xFF\<close> lie outside the modelled range, and the result
  is then \<open>None\<close>.
\<close>

definition is_cased :: "char \<Rightarrow> bool" where
  "is_cased c = (c \<in> set (upper_chars @ lower_chars @ [CHR 0xAA, CHR 0xB5, CHR 0xBA, CHR 0xDF, CHR 0xFF]))"

definition title_char :: "char \<Rightarrow> string option" where
  "title_char c =
     (if c = CHR 0xB5 \<or> c = CHR 0xFF then None
      else if c = CHR 0xDF then Some ''Ss''
      else case map_of (zip lower_chars upper_chars) c of Some u \<Rightarrow> Some [u] | None \<Rightarrow> Some [c])"

fun title_from :: "bool \<Rightarrow> string \<Rightarrow> string option" where
  "title_from previous_is_cased [] = Some []"
| "title_from previous_is_cased (c # cs) =
     (case (if previous_is_cased then Some [lower_char c] else title_char c) of
        None \<Rightarrow> None
      | Some out \<Rightarrow>
          (case title_from (is_cased c) cs of None \<Rightarrow> None | Some rest \<Rightarrow> Some (out @ rest)))"

definition title_str :: "string \<Rightarrow> string option" where
  "title_str s = title_from False s"

text \<open>
  \<open>extract_company_name_from_url\<close>. \<open>urlparse(url).netloc\<close> is a parameter: a function
  from the URL to its network location, or \<open>None\<close> when \<open>urlparse\<close> raises. Every exception
  is caught by the bare \<open>except\<close>. The result is \<open>None\<close> only where \<open>title_str\<close> is.
\<close>

definition extract_company_name_from_url :: "(string \<Rightarrow> string option) \<Rightarrow> string \<Rightarrow> string option" where
  "extract_company_name_from_url netloc url =
     (case netloc url of
        None \<Rightarrow> Some ''Unknown Company''
      | Some loc \<Rightarrow>
          let domain0 = lower loc;
              domain = replace ''.org'' [] (replace ''.com'' [] (replace ''www.'' [] domain0))
          in if in_str ''linkedin.com'' domain then Some ''LinkedIn''
             else if in_str ''indeed.com'' domain then Some ''Indeed''
             else if in_str ''glassdoor.com'' domain then Some ''Glassdoor''
             else (case split_on CHR ''.'' domain of
                     [] \<Rightarrow> Some ''Unknown Company''
                   | label # _ \<Rightarrow> title_str label))"

definition company_selectors :: "string list" where
  "company_selectors =
     [''[class*='' @ [CHR 0x22] @ ''company'' @ [CHR 0x22] @ '']'',
      ''[class*='' @ [CHR 0x22] @ ''employer'' @ [CHR 0x22] @ '']'',
      ''.company-name'',
      ''.employer-name'']"

fun first_company :: "soup \<Rightarrow> string list \<Rightarrow> string option" where
  "first_company page [] = None"
| "first_company page (selector # rest) =
     (case page selector of
        None \<Rightarrow> first_company page rest
      | Some element_text \<Rightarrow>
          let company_text = clean_text (Some element_text) in
          if company_text \<noteq> [] \<and> length company_text > 2 then Some company_text
          else first_company page rest)"

definition extract_company_name :: "(string \<Rightarrow> string option) \<Rightarrow> soup \<Rightarrow> string \<Rightarrow> string option" where
  "extract_company_name netloc page url =
     (case first_company page company_selectors of
        Some company_text \<Rightarrow> Some company_text
      | None \<Rightarrow> extract_company_name_from_url netloc url)"

section \<open>Example inputs\<close>

text \<open>The r\'esum\'e text of the segmentation example, with its five line breaks.\<close>

definition resume_example :: string where
  "resume_example =
     ''Education'' @ [CHR 0x0A] @ ''MIT'' @ [CHR 0x0A] @ ''2020'' @ [CHR 0x0A]
     @ ''Experience'' @ [CHR 0x0A] @ ''Engineer at X'' @ [CHR 0x0A] @ ''2019-2021''"

text \<open>A page whose only element that a title selector finds is
  \<open><title>Software Engineer - Indeed</title>\<close>.\<close>

definition indeed_page :: soup where
  "indeed_page selector =
     (if selector = ''title'' then Some ''Software Engineer - Indeed'' else None)"

text \<open>A page with no element at all for the selectors asked.\<close>

definition empty_page :: soup where
  "empty_page selector = None"

text \<open>\<open>urlparse\<close> on the first URL of the list in test\_app.py,
  \<open>https://www.linkedin.com/jobs/view/123456\<close>: its network location is
  \<open>www.linkedin.com\<close>.\<close>

definition linkedin_url :: string where
  "linkedin_url = ''https://www.linkedin.com/jobs/view/123456''"

definition linkedin_netloc :: "string \<Rightarrow> string option" where
  "linkedin_netloc url = Some ''www.linkedin.com''"

section \<open>Evaluating the character classes\<close>

text \<open>
  The character classes are tables. To evaluate them on a given character without a
  search through the table, each class is also given as a decision on the eight bits of
  the character (\<open>b0\<close> is the lowest bit), and the two are proved equal on all 256
  characters.
\<close>

lemma is_space_bits [code]:
  "is_space (Char b0 b1 b2 b3 b4 b5 b6 b7) =
     (if b7 then (\<not> b6 \<and> (if b5 then (\<not> b4 \<and> (\<not> b3 \<and>
     (\<not> b2 \<and> (\<not> b1 \<and> \<not> b0)))) else (\<not> b4 \<and> (\<not> b3
     \<and> (b2 \<and> (\<not> b1 \<and> b0)))))) else (\<not> b6 \<and> (if b5 then
     (\<not> b4 \<and> (\<not> b3 \<and> (\<not> b2 \<and> (\<not> b1 \<and> \<not>
     b0)))) else (if b4 then (b3 \<and> b2) else (b3 \<and> (if b2 then \<not> b1 else
     (b1 \<or> b0)))))))"
  by (rule bool.exhaust[of b0]; rule bool.exhaust[of b1]; rule bool.exhaust[of b2];
      rule bool.exhaust[of b3]; rule bool.exhaust[of b4]; rule bool.exhaust[of b5];
      rule bool.exhaust[of b6]; rule bool.exhaust[of b7];
      hypsubst; code_simp)

lemma is_digit_bits [code]:
  "is_digit (Char b0 b1 b2 b3 b4 b5 b6 b7) =
     (\<not> b7 \<and> (\<not> b6 \<and> (b5 \<and> (b4 \<and> (\<not> b3 \<or> (\<not>
     b2 \<and> \<not> b1))))))"
  by (rule bool.exhaust[of b0]; rule bool.exhaust[of b1]; rule bool.exhaust[of b2];
      rule bool.exhaust[of b3]; rule bool.exhaust[of b4]; rule bool.exhaust[of b5];
      rule bool.exhaust[of b6]; rule bool.exhaust[of b7];
      hypsubst; code_simp)

lemma is_word_bits [code]:
  "is_word (Char b0 b1 b2 b3 b4 b5 b6 b7) =
     (if b7 then (if b6 then (\<not> b4 \<or> (b3 \<or> (\<not> b2 \<or> (\<not> b1
     \<or> \<not> b0)))) else (b5 \<and> (if b4 then (if b3 then (if b2 then (\<not> b1
     \<or> \<not> b0) else (if b1 then \<not> b0 else b0)) else (if b2 then (\<not> b1
     \<and> b0) else b1)) else (b3 \<and> (\<not> b2 \<and> (b1 \<and> \<not> b0))))))
     else (if b6 then (if b5 then (if b4 then (\<not> b3 \<or> (\<not> b2 \<and> (\<not>
     b1 \<or> \<not> b0))) else (b3 \<or> (b2 \<or> (b1 \<or> b0)))) else (if b4 then
     (\<not> b3 \<or> (if b2 then (b1 \<and> b0) else (\<not> b1 \<or> \<not> b0))) else
     (b3 \<or> (b2 \<or> (b1 \<or> b0))))) else (b5 \<and> (b4 \<and> (\<not> b3 \<or>
     (\<not> b2 \<and> \<not> b1))))))"
  by (rule bool.exhaust[of b0]; rule bool.exhaust[of b1]; rule bool.exhaust[of b2];
      rule bool.exhaust[of b3]; rule bool.exhaust[of b4]; rule bool.exhaust[of b5];
      rule bool.exhaust[of b6]; rule bool.exhaust[of b7];
      hypsubst; code_simp)

lemma is_cased_bits [code]:
  "is_cased (Char b0 b1 b2 b3 b4 b5 b6 b7) =
     (if b7 then (if b6 then (\<not> b4 \<or> (b3 \<or> (\<not> b2 \<or> (\<not> b1
     \<or> \<not> b0)))) else (b5 \<and> (if b4 then (if b3 then (\<not> b2 \<and> (b1
     \<and> \<not> b0)) else (b2 \<and> (\<not> b1 \<and> b0))) else (b3 \<and> (\<not>
     b2 \<and> (b1 \<and> \<not> b0)))))) else (b6 \<and> (if b4 then (\<not> b3 \<or>
     (\<not> b2 \<and> (\<not> b1 \<or> \<not> b0))) else (b3 \<or> (b2 \<or> (b1 \<or>
     b0))))))"
  by (rule bool.exhaust[of b0]; rule bool.exhaust[of b1]; rule bool.exhaust[of b2];
      rule bool.exhaust[of b3]; rule bool.exhaust[of b4]; rule bool.exhaust[of b5];
      rule bool.exhaust[of b6]; rule bool.exhaust[of b7];
      hypsubst; code_simp)

lemma lower_char_bits [code]:
  "lower_char (Char b0 b1 b2 b3 b4 b5 b6 b7) =
     (if (if b7 then (b6 \<and> (\<not> b5 \<and> (\<not> b4 \<or> (\<not> b2 \<or>
     (\<not> b1 \<or> \<not> b0))))) else (b6 \<and> (\<not> b5 \<and> (if b4 then
     (\<not> b3 \<or> (\<not> b2 \<and> (\<not> b1 \<or> \<not> b0))) else (b3 \<or> (b2
     \<or> (b1 \<or> b0))))))) then Char b0 b1 b2 b3 b4 True b6 b7 else Char b0 b1 b2 b3
     b4 b5 b6 b7)"
  by (rule bool.exhaust[of b0]; rule bool.exhaust[of b1]; rule bool.exhaust[of b2];
      rule bool.exhaust[of b3]; rule bool.exhaust[of b4]; rule bool.exhaust[of b5];
      rule bool.exhaust[of b6]; rule bool.exhaust[of b7];
      hypsubst; code_simp)

lemma title_char_bits [code]:
  "title_char (Char b0 b1 b2 b3 b4 b5 b6 b7) =
     (if (b7 \<and> (if b6 then (b5 \<and> (b4 \<and> (b3 \<and> (b2 \<and> (b1 \<and>
     b0))))) else (b5 \<and> (b4 \<and> (\<not> b3 \<and> (b2 \<and> (\<not> b1 \<and>
     b0))))))) then None else if (b7 \<and> (b6 \<and> (\<not> b5 \<and> (b4 \<and> (b3
     \<and> (b2 \<and> (b1 \<and> b0))))))) then Some ''Ss'' else if (if b7 then (b6
     \<and> (b5 \<and> (\<not> b4 \<or> (\<not> b2 \<or> (\<not> b1 \<or> \<not> b0)))))
     else (b6 \<and> (b5 \<and> (if b4 then (\<not> b3 \<or> (\<not> b2 \<and> (\<not>
     b1 \<or> \<not> b0))) else (b3 \<or> (b2 \<or> (b1 \<or> b0))))))) then Some [Char
     b0 b1 b2 b3 b4 False b6 b7] else Some [Char b0 b1 b2 b3 b4 b5 b6 b7])"
  by (rule bool.exhaust[of b0]; rule bool.exhaust[of b1]; rule bool.exhaust[of b2];
      rule bool.exhaust[of b3]; rule bool.exhaust[of b4]; rule bool.exhaust[of b5];
      rule bool.exhaust[of b6]; rule bool.exhaust[of b7];
      hypsubst; code_simp)

section \<open>Properties of the float model\<close>

lemma round_half_even_le: "x \<le> of_int k \<Longrightarrow> round_half_even x \<le> k"
proof -
  assume h: "x \<le> of_int k"
  have f: "\<lfloor>x\<rfloor> \<le> k" using h by (simp add: floor_le_iff) 
  show ?thesis
  proof (cases "\<lfloor>x\<rfloor> = k")
    case True
    then have "of_int k \<le> x" using of_int_floor_le[of x] by simp
    with h have "x = of_int k" by simp
    then show ?thesis by (simp add: round_half_even_def)
  next
    case False
    with f have "\<lfloor>x\<rfloor> + 1 \<le> k" by simp
    then show ?thesis using f by (simp add: round_half_even_def Let_def)
  qed
qed

lemma round_half_even_ge: "of_int k \<le> x \<Longrightarrow> k \<le> round_half_even x"
proof -
  assume "of_int k \<le> x"
  then have "k \<le> \<lfloor>x\<rfloor>" by (simp add: le_floor_iff)
  then show ?thesis by (simp add: round_half_even_def Let_def)
qed

lemma binade_le: 
  assumes "x \<noteq> 0" shows "power_int 2 (binade x) \<le> \<bar>x\<bar>"
proof -
  obtain p q where pq: "quotient_of \<bar>x\<bar> = (p, q)" by (cases "quotient_of \<bar>x\<bar>")
  have q: "0 < q" using pq by (rule quotient_of_denom_pos)
  have x: "\<bar>x\<bar> = of_int p / of_int q" using pq by (rule quotient_of_div)
  have "0 < \<bar>x\<bar>" using assms by simp
  then have p: "0 < p" using x q by (simp add: zero_less_divide_iff)
  define d where "d = bitlen p - bitlen q"
  show ?thesis
  proof (cases "power_int 2 d \<le> \<bar>x\<bar>")
    case True
    then show ?thesis by (simp add: binade_def pq d_def)
  next
    case False
    have bp: "(2::int) ^ nat (bitlen p - 1) \<le> p" using bitlen_bounds[OF p] by simp
    have bq: "q < 2 ^ nat (bitlen q)" using bitlen_bounds[OF q] by simp
    have bp1: "1 \<le> bitlen p" using p bitlen_eq_zero_iff[of p] bitlen_nonneg[of p] by linarith 
    have "(2::rat) ^ nat (bitlen p - 1) \<le> of_int p"
      using bp by (metis of_int_le_iff of_int_numeral of_int_power)
    then have P: "power_int (2::rat) (bitlen p - 1) \<le> of_int p"
      using bp1 by (simp add: power_int_def)
    have "(of_int q :: rat) < 2 ^ nat (bitlen q)"
      using bq by (metis of_int_less_iff of_int_numeral of_int_power)
    then have Q: "(of_int q :: rat) \<le> power_int 2 (bitlen q)"
      using bitlen_nonneg[of q] by (simp add: power_int_def)
    have "power_int (2::rat) (d - 1) = power_int 2 (bitlen p - 1) / power_int 2 (bitlen q)"
      unfolding d_def by (simp add: power_int_diff [symmetric] algebra_simps)
    also have "\<dots> \<le> of_int p / power_int 2 (bitlen q)"
      using P by (simp add: divide_right_mono)
    also have "\<dots> \<le> of_int p / of_int q"
      using Q p q by (simp add: frac_le)
    finally have "power_int 2 (d - 1) \<le> \<bar>x\<bar>" using x by simp
    then show ?thesis using False by (simp add: binade_def pq d_def)
  qed
qed

lemma fl_nonneg: "0 \<le> x \<Longrightarrow> 0 \<le> fl x"
proof -
  assume h: "0 \<le> x"
  have "0 \<le> round_half_even (x / power_int 2 (binade x - 52))"
    by (rule round_half_even_ge) (use h in simp)
  then show ?thesis by (simp add: fl_def Let_def)
qed

lemma fl_le_int:
  assumes "0 < x" and "x \<le> of_int c" and "c < 2 ^ 52"
  shows "fl x \<le> of_int c"
proof -
  define e where "e = binade x"
  have "power_int 2 e \<le> x" using binade_le[of x] assms(1) by (simp add: e_def)
  have c: "(of_int c :: rat) < 2 ^ 52"
    using assms(3) by (metis of_int_less_iff of_int_numeral of_int_power)
  have lt: "power_int (2::rat) e < 2 ^ 52"
    using \<open>power_int 2 e \<le> x\<close> assms(2) c by linarith
  have e: "e \<le> 52"
  proof (rule ccontr)
    assume "\<not> e \<le> 52"
    then have "52 \<le> e" by simp
    then have "power_int (2::rat) 52 \<le> power_int 2 e"
      by (rule power_int_increasing) simp
    then show False using lt by simp
  qed
  define n where "n = nat (52 - e)"
  have u: "power_int (2::rat) (e - 52) = 1 / 2 ^ n"
    using e by (simp add: n_def power_int_def field_simps)
  have "x / power_int 2 (e - 52) = x * 2 ^ n" by (simp add: u)
  also have "\<dots> \<le> of_int c * 2 ^ n" using assms(2) by simp
  also have "\<dots> = of_int (c * 2 ^ n)" by simp
  finally have "round_half_even (x / power_int 2 (e - 52)) \<le> c * 2 ^ n"
    by (rule round_half_even_le)
  then have "(of_int (round_half_even (x / power_int 2 (e - 52))) :: rat) \<le> of_int (c * 2 ^ n)"
    by (simp only: of_int_le_iff)
  then have "of_int (round_half_even (x / power_int 2 (e - 52))) * (1 / 2 ^ n) \<le> (of_int c :: rat)"
    by (simp add: field_simps)
  then show ?thesis using assms(1) by (simp add: fl_def Let_def e_def[symmetric] u)
qed

lemma fl_bounds:
  assumes "0 \<le> x" and "x \<le> of_int c" and "c < 2 ^ 52"
  shows "0 \<le> fl x \<and> fl x \<le> of_int c"
proof (cases "x = 0")
  case True
  then show ?thesis using assms(2) by (simp add: fl_def)
next
  case False
  then have "0 < x" using assms(1) by simp
  then show ?thesis using fl_le_int[OF _ assms(2,3)] fl_nonneg[OF assms(1)] by simp
qed

lemma py_round2_bounds:
  assumes "0 \<le> x" and "x \<le> 100"
  shows "0 \<le> py_round2 x \<and> py_round2 x \<le> 100"
proof -
  have lo: "0 \<le> round_half_even (x * 100)"
    by (rule round_half_even_ge) (use assms(1) in simp)
  have "x * 100 \<le> of_int 10000" using assms(2) by simp
  then have hi: "round_half_even (x * 100) \<le> 10000" by (rule round_half_even_le)
  have a: "(0::rat) \<le> of_int (round_half_even (x * 100)) / 100" using lo by simp
  have "(of_int (round_half_even (x * 100)) :: rat) \<le> of_int 10000"
    using hi by (simp only: of_int_le_iff)
  then have b: "(of_int (round_half_even (x * 100)) :: rat) / 100 \<le> of_int 100" by simp
  show ?thesis using fl_bounds[OF a b] by (simp add: py_round2_def)
qed

lemma percentage_bounds:
  assumes "m \<le> n" and "0 < n"
  shows "0 \<le> py_round2 (float_mul (fl (of_nat m / of_nat n)) 100)
       \<and> py_round2 (float_mul (fl (of_nat m / of_nat n)) 100) \<le> 100"
proof -
  have a: "(0::rat) \<le> of_nat m / of_nat n" by simp
  have b: "(of_nat m :: rat) / of_nat n \<le> of_int 1" using assms by (simp add: divide_le_eq)
  have r: "0 \<le> fl (of_nat m / of_nat n) \<and> fl (of_nat m / of_nat n) \<le> 1"
    using fl_bounds[OF a b] by simp
  then have c: "0 \<le> fl (of_nat m / of_nat n) * 100" by simp
  have d: "fl (of_nat m / of_nat n) * 100 \<le> of_int 100" using r by simp
  have "0 \<le> float_mul (fl (of_nat m / of_nat n)) 100 \<and> float_mul (fl (of_nat m / of_nat n)) 100 \<le> 100"
    using fl_bounds[OF c d] by (simp add: float_mul_def)
  then show ?thesis using py_round2_bounds by blast
qed

section \<open>Properties of skill matching\<close>

lemma in_str_iff: "in_str sub s \<longleftrightarrow> (\<exists>p q. s = p @ sub @ q)"
proof (induction s)
  case Nil
  then show ?case by auto
next
  case (Cons c cs)
  show ?case
  proof
    assume "in_str sub (c # cs)"
    then consider "prefix sub (c # cs)" | "in_str sub cs" by auto
    then show "\<exists>p q. c # cs = p @ sub @ q"
    proof cases
      case 1
      then obtain q where "c # cs = sub @ q" by (auto simp: prefix_def)
      then have "c # cs = [] @ sub @ q" by simp
      then show ?thesis by blast
    next
      case 2
      then obtain p q where "cs = p @ sub @ q" using Cons.IH by blast
      then have "c # cs = (c # p) @ sub @ q" by simp
      then show ?thesis by blast
    qed
  next
    assume "\<exists>p q. c # cs = p @ sub @ q"
    then obtain p q where pq: "c # cs = p @ sub @ q" by blast
    show "in_str sub (c # cs)"
    proof (cases p)
      case Nil
      then have "prefix sub (c # cs)" using pq by (simp add: prefix_def)
      then show ?thesis by simp
    next
      case (Cons a p')
      then have "cs = p' @ sub @ q" using pq by simp
      then have "in_str sub cs" using Cons.IH by blast
      then show ?thesis by simp
    qed
  qed
qed

lemma resume_hit_iff:
  "resume_hit j rs \<longleftrightarrow> (\<exists>t \<in> set rs. in_str j t \<or> in_str t j)"
  by (induction rs) auto

lemma match_loop_filter:
  "match_loop js rs acc = acc @ filter (\<lambda>j. resume_hit j rs) js"
  by (induction js arbitrary: acc) auto

lemma get_skill_matches_nonempty:
  assumes "job_skills \<noteq> []"
  shows "get_skill_matches job_skills resume_skills =
     Inr \<lparr>matched_skills =
            filter (\<lambda>j. resume_hit j (map normalize_skill resume_skills)) (map normalize_skill job_skills),
          missing_skills =
            filter (\<lambda>j. \<not> resume_hit j (map normalize_skill resume_skills)) (map normalize_skill job_skills),
          match_percentage = py_round2 (float_mul (fl (of_nat (length
            (filter (\<lambda>j. resume_hit j (map normalize_skill resume_skills)) (map normalize_skill job_skills)))
            / of_nat (length job_skills))) 100)\<rparr>"
proof -
  have "filter (\<lambda>skill. skill \<notin> set (filter P js)) js = filter (\<lambda>j. \<not> P j) js"
    for P :: "string \<Rightarrow> bool" and js
    by (rule filter_cong) auto
  then show ?thesis using assms
    unfolding get_skill_matches_def Let_def match_loop_filter int_truediv_def
    by (simp del: set_filter set_map)
qed

text \<open>
  Claim C10. For every pair of skill lists, \<open>get_skill_matches\<close> returns (it does not raise),
  and its result partitions the normalized job-skill list: \<open>matched_skills\<close> is the
  sublist, in job-skill order, of the lowercased and trimmed job skills that hit a
  lowercased and trimmed r\'esum\'e skill (one is a substring of the other);
  \<open>missing_skills\<close> is the sublist, in order, of the remaining ones; the two lengths add up to
  the number of job skills; and \<open>match_percentage\<close> lies between 0 and 100.
\<close>

theorem get_skill_matches_partition:
  "\<exists>r. get_skill_matches job_skills resume_skills = Inr r
     \<and> matched_skills r =
         filter (\<lambda>j. \<exists>t \<in> set (map normalize_skill resume_skills). in_str j t \<or> in_str t j)
           (map normalize_skill job_skills)
     \<and> missing_skills r =
         filter (\<lambda>j. \<not> (\<exists>t \<in> set (map normalize_skill resume_skills). in_str j t \<or> in_str t j))
           (map normalize_skill job_skills)
     \<and> length (matched_skills r) + length (missing_skills r) = length job_skills
     \<and> 0 \<le> match_percentage r \<and> match_percentage r \<le> 100"
proof (cases "job_skills = []")
  case True
  then show ?thesis by (simp add: get_skill_matches_def)
next
  case False
  let ?js = "map normalize_skill job_skills"
  let ?rs = "map normalize_skill resume_skills"
  let ?m = "filter (\<lambda>j. resume_hit j ?rs) ?js"
  have len: "length ?m + length (filter (\<lambda>j. \<not> resume_hit j ?rs) ?js) = length job_skills"
    using sum_length_filter_compl[of "\<lambda>j. resume_hit j ?rs" ?js] by simp
  have le: "length ?m \<le> length job_skills" using length_filter_le[of _ ?js] by simp
  have pos: "0 < length job_skills" using False by simp
  show ?thesis
    using get_skill_matches_nonempty[OF False, of resume_skills] len
      percentage_bounds[OF le pos]
    by (simp add: resume_hit_iff)
qed

lemma normalize_skill_examples:
  "normalize_skill ''Python '' = ''python''"
  "normalize_skill ''SQL'' = ''sql''"
  "normalize_skill ''go'' = ''go''"
  "normalize_skill ''python3'' = ''python3''"
  "normalize_skill ''python'' = ''python''"
  "normalize_skill ''sql'' = ''sql''"
  "normalize_skill ''Python Developer'' = ''python developer''"
  by code_simp+

theorem get_skill_matches_partition_witness:
  "\<exists>r. get_skill_matches [''Python '', ''SQL'', ''go''] [''python3''] = Inr r
     \<and> matched_skills r = [''python'']
     \<and> missing_skills r = [''sql'', ''go'']
     \<and> length (matched_skills r) + length (missing_skills r) = Suc (Suc (Suc 0))
     \<and> 0 \<le> match_percentage r \<and> match_percentage r \<le> 100"
  using get_skill_matches_partition[of "[''Python '', ''SQL'', ''go'']" "[''python3'']"]
  by (simp add: normalize_skill_examples)

text \<open>
  Claim C1, as stated, fails: it says that \<open>match_percentage\<close> is 0 only for an empty
  job-skill list. With the job skills \<open>["python"]\<close> and no r\'esum\'e skill, the job list is
  not empty, nothing matches, and the percentage is 0.
\<close>

theorem match_percentage_zero_counterexample:
  "get_skill_matches [''python''] [] =
     Inr \<lparr>matched_skills = [], missing_skills = [''python''], match_percentage = 0\<rparr>
   \<and> [''python''] \<noteq> ([] :: string list)"
  by code_simp

text \<open>
  Claim C1, amended. \<open>get_skill_matches\<close> returns for every pair of lists. If the job-skill
  list is empty the percentage is 0, and so it is when no job skill is matched (the converse
  of the first does not hold). For a non-empty job list the percentage is the float
  \<open>(len(matched) / len(job skills)) * 100\<close> rounded to two decimals by \<open>round\<close>. A
  normalized (lowercased, trimmed) job skill is in \<open>matched_skills\<close> exactly when it is a
  substring of some normalized r\'esum\'e skill or some normalized r\'esum\'e skill is a
  substring of it.
\<close>

theorem match_percentage_amended:
  "\<exists>r. get_skill_matches job_skills resume_skills = Inr r
     \<and> (job_skills = [] \<longrightarrow> match_percentage r = 0)
     \<and> (matched_skills r = [] \<longrightarrow> match_percentage r = 0)
     \<and> (job_skills \<noteq> [] \<longrightarrow> match_percentage r =
           py_round2 (float_mul (fl (of_nat (length (matched_skills r)) / of_nat (length job_skills))) 100))
     \<and> (\<forall>j \<in> set (map normalize_skill job_skills).
           j \<in> set (matched_skills r) \<longleftrightarrow>
           (\<exists>t \<in> set (map normalize_skill resume_skills). in_str j t \<or> in_str t j))"
proof (cases "job_skills = []")
  case True
  then show ?thesis by (simp add: get_skill_matches_def)
next
  case False
  define js where "js = map normalize_skill job_skills"
  define rs where "rs = map normalize_skill resume_skills"
  define m where "m = filter (\<lambda>j. resume_hit j rs) js"
  define r where "r = \<lparr>matched_skills = m,
     missing_skills = filter (\<lambda>j. \<not> resume_hit j rs) js,
     match_percentage = py_round2 (float_mul (fl (of_nat (length m) / of_nat (length job_skills))) 100)\<rparr>"
  have ret: "get_skill_matches job_skills resume_skills = Inr r"
    using get_skill_matches_nonempty[OF False, of resume_skills]
    by (simp only: r_def m_def js_def rs_def)
  have z: "py_round2 (float_mul (fl 0) 100) = 0"
    by (simp add: py_round2_def float_mul_def fl_def round_half_even_def)
  have a: "matched_skills r = [] \<longrightarrow> match_percentage r = 0"
    by (simp add: r_def z)
  have b: "match_percentage r =
      py_round2 (float_mul (fl (of_nat (length (matched_skills r)) / of_nat (length job_skills))) 100)"
    by (simp add: r_def)
  have c: "\<forall>j \<in> set js. j \<in> set (matched_skills r) \<longleftrightarrow>
      (\<exists>t \<in> set rs. in_str j t \<or> in_str t j)"
    by (simp add: r_def m_def resume_hit_iff)
  show ?thesis
    using ret False a b c unfolding js_def rs_def by blast
qed

theorem match_percentage_amended_witness:
  "\<exists>r. get_skill_matches [''python'', ''sql''] [''Python Developer''] = Inr r
     \<and> matched_skills r = [''python'']
     \<and> match_percentage r = py_round2 (float_mul (fl (1 / 2)) 100)"
proof -
  obtain r where r: "get_skill_matches [''python'', ''sql''] [''Python Developer''] = Inr r"
    and pct: "match_percentage r =
      py_round2 (float_mul (fl (of_nat (length (matched_skills r)) / of_nat (length [''python'', ''sql'']))) 100)"
    and hit: "\<forall>j \<in> set (map normalize_skill [''python'', ''sql'']).
           j \<in> set (matched_skills r) \<longleftrightarrow>
           (\<exists>t \<in> set (map normalize_skill [''Python Developer'']). in_str j t \<or> in_str t j)"
    using match_percentage_amended[of "[''python'', ''sql'']" "[''Python Developer'']"] by auto
  have m: "matched_skills r = [''python'']"
    using r by (auto simp add: get_skill_matches_nonempty normalize_skill_examples)
  show ?thesis using r m pct by simp
qed

section \<open>Properties of the text utilities\<close>

lemma lower_append: "lower (a @ b) = lower a @ lower b"
  by (simp add: lower_def)

lemma in_str_append_right: "in_str s t \<Longrightarrow> in_str s (t @ u)"
proof -
  assume "in_str s t"
  then obtain p q where "t = p @ s @ q" using in_str_iff by blast
  then have "t @ u = p @ s @ (q @ u)" by simp
  then show ?thesis using in_str_iff by blast
qed

lemma found_skills_examples:
  "found_skills ''script java'' = [''java'']"
  "found_skills ''script javascript java'' = [''java'', ''javascript'']"
  by code_simp+

text \<open>
  Claim C3, as stated, fails: duplicating the text can create a keyword across the
  junction. The text \<open>script java\<close> holds the one skill \<open>java\<close>; the text
  \<open>script javascript java\<close>, its self-concatenation, holds \<open>javascript\<close> as well.
\<close>

theorem extract_skills_duplication_counterexample:
  "extract_skills_from_text (''script java'' @ ''script java'')
     \<noteq> extract_skills_from_text ''script java''"
  by (simp add: extract_skills_from_text_def found_skills_examples)

text \<open>
  Claim C3, amended. Every skill extracted from a text is extracted from its
  self-concatenation too: duplication never loses a skill (it can add one).
\<close>

theorem extract_skills_duplication_subset:
  "extract_skills_from_text inp \<subseteq> extract_skills_from_text (inp @ inp)"
  by (auto simp add: extract_skills_from_text_def found_skills_def lower_append
      intro: in_str_append_right)

theorem extract_skills_duplication_subset_witness:
  "extract_skills_from_text ''script java'' = {''java''}
   \<and> extract_skills_from_text (''script java'' @ ''script java'') = {''java'', ''javascript''}
   \<and> extract_skills_from_text ''script java''
       \<subseteq> extract_skills_from_text (''script java'' @ ''script java'')"
  using extract_skills_duplication_subset[of "''script java''"]
  by (simp add: extract_skills_from_text_def found_skills_examples)

lemma collapse_ws_aux_spaces:
  "c \<in> set (collapse_ws_aux b s) \<Longrightarrow> is_space c \<Longrightarrow> c = CHR '' ''"
  by (induction s arbitrary: b) (auto split: if_splits)

lemma set_strip: "set (strip s) \<subseteq> set s"
  by (auto simp add: strip_def dest!: set_dropWhileD)

text \<open>What does hold of \<open>clean_text\<close> for every input: the result has only characters of
  the allowed set, its only whitespace character is the space, and it neither starts nor
  ends with whitespace. Absent and empty input give the empty string.\<close>

lemma clean_text_chars:
  assumes "c \<in> set (clean_text inp)"
  shows "allowed_char c \<and> (is_space c \<longrightarrow> c = CHR '' '')"
proof (cases inp)
  case None
  then show ?thesis using assms by (simp add: clean_text_def)
next
  case (Some t)
  then have "c \<in> set (filter allowed_char (collapse_ws t))"
    using assms set_strip[of "filter allowed_char (collapse_ws t)"]
    by (auto simp add: clean_text_def split: if_splits)
  then show ?thesis using collapse_ws_aux_spaces[of c False t]
    by (auto simp add: collapse_ws_def)
qed

lemma strip_trimmed:
  assumes "strip s \<noteq> []"
  shows "\<not> is_space (hd (strip s)) \<and> \<not> is_space (last (strip s))"
proof -
  define u where "u = dropWhile is_space (rev (dropWhile is_space s))"
  have u: "strip s = rev u" by (simp add: strip_def u_def)
  then have ne: "u \<noteq> []" using assms by simp
  have l: "\<not> is_space (hd u)" using ne unfolding u_def by (rule hd_dropWhile)
  have d: "dropWhile is_space s \<noteq> []"
  proof
    assume "dropWhile is_space s = []"
    then have "u = []" by (simp only: u_def rev.simps dropWhile.simps)
    with ne show False by simp
  qed
  have "last u = last (rev (dropWhile is_space s))"
    using ne unfolding u_def by (metis takeWhile_dropWhile_id last_appendR)
  also have "\<dots> = hd (dropWhile is_space s)" using d by (simp add: last_rev)
  finally have "\<not> is_space (last u)" using hd_dropWhile[OF d] by simp
  then show ?thesis using l ne by (simp add: u hd_rev last_rev)
qed

lemma clean_text_trimmed:
  assumes "clean_text inp \<noteq> []"
  shows "\<not> is_space (hd (clean_text inp)) \<and> \<not> is_space (last (clean_text inp))"
proof (cases inp)
  case None
  then show ?thesis using assms by (simp add: clean_text_def)
next
  case (Some t)
  then show ?thesis using assms strip_trimmed[of "filter allowed_char (collapse_ws t)"]
    by (auto simp add: clean_text_def split: if_splits)
qed

lemma clean_text_empty: "clean_text None = [] \<and> clean_text (Some []) = []"
  by (simp add: clean_text_def)

lemma clean_text_example: "clean_text (Some ''  Hello   World!! '') = ''Hello World!!''"
  by code_simp

text \<open>
  Claim C5 says that the string \<open>clean_text\<close> returns has every run of whitespace
  collapsed to a single space. The runs are collapsed before the disallowed characters are
  removed, so a removed character that stood between two spaces leaves a run of two spaces
  in the result: \<open>clean_text("a @ b")\<close> is \<open>"a  b"\<close>.
\<close>

theorem clean_text_double_space: "clean_text (Some ''a @ b'') = ''a  b''"
  by code_simp

lemma file_extension_examples:
  "get_file_extension ''cv.inp'' = ''.inp''"
  "get_file_extension ''CV.PDF'' = ''.pdf''"
  by code_simp+

text \<open>
  Claim C9. For every uploaded file whose lowercased extension is not \<open>.pdf\<close>, \<open>.docx\<close> or
  \<open>.doc\<close>, \<open>parse_resume\<close> raises, whatever the text extractors would do; and
  \<open>validate_file_upload\<close> reports a file valid exactly when the file is present, its
  lowercased extension is one of the three and its size is at most \<open>10 * 1024 * 1024\<close>
  bytes.
\<close>

theorem parse_resume_unsupported_validate_upload:
  "(get_file_extension (name f) \<notin> set SUPPORTED_FILE_TYPES \<longrightarrow>
      parse_resume extract_text_from_pdf extract_text_from_docx (Some f) =
        Inl (ParseResumeFailed (UnsupportedFormat (get_file_extension (name f)))))
   \<and> (valid (validate_file_upload uploaded) \<longleftrightarrow>
        (\<exists>g. uploaded = Some g \<and> get_file_extension (name g) \<in> set [''.pdf'', ''.docx'', ''.doc'']
             \<and> size g \<le> 10 * 1024 * 1024))"
  by (cases uploaded)
     (auto simp add: parse_resume_def validate_file_upload_def SUPPORTED_FILE_TYPES_def
        MAX_FILE_SIZE_def Let_def)

theorem parse_resume_unsupported_validate_upload_witness:
  "get_file_extension (name \<lparr>name = ''cv.inp'', size = 5, content = []\<rparr>) \<notin> set SUPPORTED_FILE_TYPES
   \<and> parse_resume (\<lambda>f. Some []) (\<lambda>f. Some []) (Some \<lparr>name = ''cv.inp'', size = 5, content = []\<rparr>) =
        Inl (ParseResumeFailed (UnsupportedFormat ''.inp''))
   \<and> valid (validate_file_upload (Some \<lparr>name = ''CV.PDF'', size = 10485760, content = []\<rparr>))"
  using parse_resume_unsupported_validate_upload[of "\<lparr>name = ''cv.inp'', size = 5, content = []\<rparr>"
      "\<lambda>f. Some []" "\<lambda>f. Some []" "Some \<lparr>name = ''CV.PDF'', size = 10485760, content = []\<rparr>"]
  by (simp add: file_extension_examples SUPPORTED_FILE_TYPES_def)

section \<open>Properties of the relevant-experience ranking\<close>

lemma score_of_relevance_score_update [simp]:
  "score_of r (e\<lparr>relevance_score := x\<rparr>) = score_of r e"
  by (simp add: score_of_def)

text \<open>The loop in closed form: it marks the entries of positive score and collects them in
  order.\<close>

lemma relevant_loop_closed:
  "relevant_loop r xs st acc =
     (\<lambda>a. if a \<in> set xs \<and> 0 < score_of r (st a)
            then (st a)\<lparr>relevance_score := Some (score_of r (st a))\<rparr> else st a,
      acc @ filter (\<lambda>a. 0 < score_of r (st a)) xs)"
proof (induction xs arbitrary: st acc)
  case Nil
  then show ?case by simp
next
  case (Cons x xs)
  show ?case
  proof (cases "0 < score_of r (st x)")
    case False
    then show ?thesis using Cons.IH[of st acc] by (auto simp add: fun_eq_iff)
  next
    case True
    define st1 where "st1 = st(x := (st x)\<lparr>relevance_score := Some (score_of r (st x))\<rparr>)"
    have s: "score_of r (st1 a) = score_of r (st a)" for a by (simp add: st1_def)
    have "relevant_loop r (x # xs) st acc = relevant_loop r xs st1 (acc @ [x])"
      using True by (simp add: st1_def Let_def)
    also have "\<dots> =
       (\<lambda>a. if a \<in> set xs \<and> 0 < score_of r (st a)
              then (st1 a)\<lparr>relevance_score := Some (score_of r (st a))\<rparr> else st1 a,
        (acc @ [x]) @ filter (\<lambda>a. 0 < score_of r (st a)) xs)"
      unfolding Cons.IH[of st1 "acc @ [x]"] s ..
    also have "\<dots> =
       (\<lambda>a. if a \<in> set (x # xs) \<and> 0 < score_of r (st a)
              then (st a)\<lparr>relevance_score := Some (score_of r (st a))\<rparr> else st a,
        acc @ filter (\<lambda>a. 0 < score_of r (st a)) (x # xs))"
      using True by (auto simp add: fun_eq_iff st1_def)
    finally show ?thesis .
  qed
qed

lemma insort_key_cong_on:
  "f x = g x \<Longrightarrow> \<forall>y \<in> set ys. f y = g y \<Longrightarrow> insort_key f x ys = insort_key g x ys"
  by (induction ys) auto

lemma sort_key_cong_on:
  "\<forall>x \<in> set xs. f x = g x \<Longrightarrow> sort_key f xs = sort_key g xs"
proof (induction xs)
  case Nil
  then show ?case by simp
next
  case (Cons x xs)
  then have eq: "sort_key f xs = sort_key g xs" by simp
  have "f x = g x" and "\<forall>y \<in> set (sort_key g xs). f y = g y" using Cons.prems by simp_all
  then have "insort_key f x (sort_key g xs) = insort_key g x (sort_key g xs)"
    by (rule insort_key_cong_on)
  then show ?case by (simp add: eq)
qed



text \<open>The value of \<open>get_relevant_experience\<close> in terms of the scores read in the store it
  is given.\<close>

lemma get_relevant_experience_closed:
  "get_relevant_experience job_requirements resume_experience st =
     (\<lambda>a. if a \<in> set resume_experience \<and> 0 < score_of (lower job_requirements) (st a)
            then (st a)\<lparr>relevance_score := Some (score_of (lower job_requirements) (st a))\<rparr>
            else st a,
      take 3 (sort_descending (\<lambda>a. score_of (lower job_requirements) (st a))
        (filter (\<lambda>a. 0 < score_of (lower job_requirements) (st a)) resume_experience)))"
proof (cases "resume_experience = []")
  case True
  then show ?thesis by (simp add: get_relevant_experience_def sort_descending_def)
next
  case False
  define r where "r = lower job_requirements"
  define st' where "st' = (\<lambda>a. if a \<in> set resume_experience \<and> 0 < score_of r (st a)
            then (st a)\<lparr>relevance_score := Some (score_of r (st a))\<rparr> else st a)"
  define rel where "rel = filter (\<lambda>a. 0 < score_of r (st a)) resume_experience"
  have loop: "relevant_loop r resume_experience st [] = (st', rel)"
    by (simp add: relevant_loop_closed st'_def rel_def)
  have "\<forall>a \<in> set rel. - sort_key_of st' a = - score_of r (st a)"
    by (simp add: rel_def st'_def sort_key_of_def)
  then have "sort_descending (sort_key_of st') rel = sort_descending (\<lambda>a. score_of r (st a)) rel"
    unfolding sort_descending_def by (rule sort_key_cong_on)
  then show ?thesis using False loop
    unfolding get_relevant_experience_def r_def[symmetric] st'_def[symmetric] rel_def[symmetric]
    by simp
qed




lemma relevant_example:
  "snd (get_relevant_experience ''Python engineer'' [0, 1, 2, 3, 4] example_store) = [3, 2, 4]"
  "map (\<lambda>a. score_of (lower ''Python engineer'') (example_store a)) [0, 1, 2, 3, 4] = [0, 1, 2, 3, 2]"
  "map (\<lambda>a. relevance_score (fst (get_relevant_experience ''Python engineer'' [0, 1, 2, 3, 4] example_store) a))
     [0, 1, 2, 3, 4] = [None, Some 1, Some 2, Some 3, Some 2]"
  "map (\<lambda>a. relevance_score (example_store a)) [0, 1, 2, 3, 4] = [None, None, None, None, None]"
  by code_simp+


text \<open>
  Claim C8, as stated, fails for \<open>get_relevant_experience\<close>: the call adds the key
  \<open>relevance_score\<close> to the dictionaries of its argument list. The object at address 2 has
  no \<open>relevance_score\<close> before the call and the score 2 after it.
\<close>

theorem input_unchanged_counterexample:
  "relevance_score (example_store 2) = None
   \<and> relevance_score
        (fst (get_relevant_experience ''Python engineer'' [0, 1, 2, 3, 4] example_store) 2) = Some 2"
  using relevant_example(3,4) by simp

text \<open>
  Claim C8, amended. \<open>get_relevant_experience\<close> writes nothing but the key
  \<open>relevance_score\<close>, and only in the entries of its argument list whose score is positive,
  where it stores the score: such an entry keeps every other key, and every other object
  of the store is left as it was. The argument list itself is not written to (the sort is
  applied to a new list). \<open>get_skill_matches\<close> reads its two lists and builds new ones, which
  is why it is modelled as a function of the values of its arguments.
\<close>

theorem get_relevant_experience_frame:
  "case get_relevant_experience job_requirements resume_experience st of
     (st', result) \<Rightarrow>
       (\<forall>a. period (st' a) = period (st a) \<and> title (st' a) = title (st a)
            \<and> company (st' a) = company (st a) \<and> description (st' a) = description (st a))
       \<and> (\<forall>a. a \<in> set resume_experience \<and> 0 < score_of (lower job_requirements) (st a) \<longrightarrow>
              st' a = (st a)\<lparr>relevance_score := Some (score_of (lower job_requirements) (st a))\<rparr>)
       \<and> (\<forall>a. a \<notin> set resume_experience \<or> score_of (lower job_requirements) (st a) \<le> 0 \<longrightarrow>
              st' a = st a)"
  unfolding get_relevant_experience_closed prod.case by auto

theorem get_relevant_experience_frame_witness:
  "3 \<in> set [0, 1, 2, 3, 4 :: nat]
   \<and> 0 < score_of (lower ''Python engineer'') (example_store 3)
   \<and> fst (get_relevant_experience ''Python engineer'' [0, 1, 2, 3, 4] example_store) 3
       = (example_store 3)\<lparr>relevance_score := Some 3\<rparr>
   \<and> score_of (lower ''Python engineer'') (example_store 0) \<le> 0
   \<and> fst (get_relevant_experience ''Python engineer'' [0, 1, 2, 3, 4] example_store) 0
       = example_store 0"
proof -
  let ?g = "get_relevant_experience ''Python engineer'' [0, 1, 2, 3, 4] example_store"
  let ?score = "\<lambda>a. score_of (lower ''Python engineer'') (example_store a)"
  have fr: "(\<forall>a. a \<in> set [0, 1, 2, 3, 4] \<and> 0 < ?score a \<longrightarrow>
              fst ?g a = (example_store a)\<lparr>relevance_score := Some (?score a)\<rparr>)
       \<and> (\<forall>a. a \<notin> set [0, 1, 2, 3, 4] \<or> ?score a \<le> 0 \<longrightarrow> fst ?g a = example_store a)"
    using get_relevant_experience_frame[where job_requirements = "''Python engineer''"
        and resume_experience = "[0, 1, 2, 3, 4]" and st = example_store,
        unfolded case_prod_beta, THEN conjunct2]
    by this
  have s3: "?score 3 = 3" and s0: "?score 0 = 0" using relevant_example(2) by simp_all
  have m: "(3::nat) \<in> set [0, 1, 2, 3, 4]" by simp
  have "fst ?g 3 = (example_store 3)\<lparr>relevance_score := Some 3\<rparr>"
    using fr m s3 by (metis zero_less_numeral)
  moreover have "fst ?g 0 = example_store 0" using fr s0 by (metis order_refl)
  ultimately show ?thesis using s3 s0 m by simp
qed

section \<open>The segmentation example\<close>

lemma resume_example_clean:
  "clean_text (Some resume_example) = ''Education MIT 2020 Experience Engineer at X 2019-2021''"
  by code_simp

lemma resume_example_parse:
  "education (parse_resume_text resume_example) = []"
  "experience (parse_resume_text resume_example) = []"
  by code_simp+

text \<open>
  Claim C2 says that the parse of the example text, normalization first, yields one
  education entry and one experience entry. \<open>_parse_resume_text\<close> normalizes the text
  with \<open>clean_text\<close>, which turns every line break into a space, and only then splits it
  into lines: the one remaining line holds the keyword \<open>education\<close>, so it is a section
  header and no line is ever collected. Both buckets are empty, and so are the education
  and experience lists.
\<close>

theorem parse_example_empty:
  "education (parse_resume_text resume_example) = []
   \<and> experience (parse_resume_text resume_example) = []"
  using resume_example_parse by simp

text \<open>The same for every text: a normalized text has no line break, so it is a single
  line, and a single line fills neither the education nor the experience bucket.\<close>

lemma split_on_aux_no_sep: "sep \<notin> set s \<Longrightarrow> split_on_aux sep cur s = [cur @ s]"
  by (induction s arbitrary: cur) auto

lemma clean_text_no_newline: "CHR 0x0A \<notin> set (clean_text inp)"
proof
  assume "CHR 0x0A \<in> set (clean_text inp)"
  then have "is_space (CHR 0x0A) \<longrightarrow> CHR 0x0A = CHR '' ''" using clean_text_chars by blast
  then show False by (simp add: is_space_def)
qed

lemma extract_sections_one_line:
  assumes "CHR 0x0A \<notin> set t"
  shows "extract_sections t Education = None \<and> extract_sections t Experience = None"
proof -
  have one: "split_on (CHR 0x0A) t = [t]"
    using assms by (simp add: split_on_def split_on_aux_no_sep)
  show ?thesis
    unfolding extract_sections_def one
    by (simp add: Let_def split: option.splits)
qed

lemma parse_resume_text_no_entries:
  "education (parse_resume_text t) = [] \<and> experience (parse_resume_text t) = []"
  using extract_sections_one_line[OF clean_text_no_newline, of "Some t"]
  by (simp add: parse_resume_text_def Let_def get_section_def extract_education_def
      extract_experience_def)

text \<open>
  For comparison, the segmentation and the two extractors on the lines of the example,
  line breaks intact. The education bucket is \<open>MIT\<close>, \<open>2020\<close> and yields one entry with the
  year \<open>2020\<close> and no institution (\<open>MIT\<close> holds none of the institution words). The
  experience bucket is \<open>Engineer at X\<close>, \<open>2019-2021\<close> and yields two entries, since a line
  with a year range starts a new entry.
\<close>

lemma segmentation_on_lines:
  "extract_sections resume_example Education = Some (''MIT'' @ [CHR 0x0A] @ ''2020'')
   \<and> extract_sections resume_example Experience = Some (''Engineer at X'' @ [CHR 0x0A] @ ''2019-2021'')
   \<and> extract_education (get_section (extract_sections resume_example) Education) =
       [\<lparr>institution = None, degree = None, year = Some ''2020'', gpa = None\<rparr>]
   \<and> extract_experience (get_section (extract_sections resume_example) Experience) =
       [\<lparr>period = None, title = Some ''Engineer at X'', company = None, description = None,
          relevance_score = None\<rparr>,
        \<lparr>period = Some ''2019-2021'', title = None, company = None, description = None,
          relevance_score = None\<rparr>]"
  by code_simp

section \<open>Properties of the job-page extractors\<close>

lemma remove_suffixes_example:
  "remove_suffixes 0 ''Software Engineer - Indeed'' = ''Software Engineer''"
  by code_simp

text \<open>
  Claim C6 says that a page none of whose heading selectors qualifies gets the text of its
  \<open>title\<close> element with the job-board suffix stripped. The selector list of the loop ends
  with \<open>title\<close> itself, so the loop returns the cleaned text of the \<open>title\<close> element, suffix
  included, as soon as it has more than three characters, and the stripping code after the
  loop is not reached: for the page \<open><title>Software Engineer - Indeed</title>\<close> the
  result is \<open>Software Engineer - Indeed\<close>, not \<open>Software Engineer\<close>.
\<close>

theorem extract_job_title_keeps_suffix:
  "extract_job_title indeed_page = Title ''Software Engineer - Indeed''"
  by code_simp

text \<open>The same for every page: when the loop reaches the selector \<open>title\<close> and the cleaned
  text of that element has more than three characters, that text is the result.\<close>

lemma first_title_append:
  "first_title page (xs @ ys) =
     (case first_title page xs of Some t \<Rightarrow> Some t | None \<Rightarrow> first_title page ys)"
  by (induction xs) (auto simp add: Let_def split: option.splits)

lemma extract_job_title_unstripped:
  assumes "first_title page (butlast title_selectors) = None"
    and "page ''title'' = Some tag_text"
    and "3 < length (clean_text (Some tag_text))"
  shows "extract_job_title page = Title (clean_text (Some tag_text))"
proof -
  have split: "title_selectors = butlast title_selectors @ [''title'']"
    by (simp add: title_selectors_def)
  have "first_title page [''title''] = Some (clean_text (Some tag_text))"
    using assms(2,3) by (auto simp add: Let_def)
  then have "first_title page title_selectors = Some (clean_text (Some tag_text))"
    using assms(1) by (subst split) (simp add: first_title_append)
  then show ?thesis by (simp add: extract_job_title_def)
qed

text \<open>
  Claim C7 says that the company fallback maps the job-board domains to their brand names.
  The code removes \<open>.com\<close> from the domain before it looks for \<open>linkedin.com\<close>,
  \<open>indeed.com\<close> and \<open>glassdoor.com\<close>, so the three tests fail on the job boards' own
  URLs and the title-cased first label is returned: for
  \<open>https://www.linkedin.com/jobs/view/123456\<close> the result is \<open>Linkedin\<close>, not
  \<open>LinkedIn\<close>.
\<close>

theorem company_name_linkedin:
  "extract_company_name linkedin_netloc empty_page linkedin_url = Some ''Linkedin''
   \<and> extract_company_name_from_url linkedin_netloc linkedin_url = Some ''Linkedin''"
  by code_simp

end
